theory Spec2Isabelle
  imports Complex_Main
begin

section \<open>Numbers\<close>

text \<open>
  The source computes with JavaScript numbers. They are modelled as the real numbers
  together with the three non-finite values of IEEE arithmetic, so that a division by
  zero yields what the source yields (an infinity or \<open>NaN\<close>) and every comparison with
  \<open>NaN\<close> is false. Rounding, overflow and the sign of zero are not modelled: a finite
  result is the exact real, and a zero divisor is taken as \<open>+0\<close>.
\<close>

datatype number = Fin real | PosInf | NegInf | NaN

instantiation number :: "{uminus, plus, minus, times, inverse, ord}"
begin

fun uminus_number :: "number \<Rightarrow> number" where
  "uminus_number (Fin a) = Fin (- a)"
| "uminus_number PosInf = NegInf"
| "uminus_number NegInf = PosInf"
| "uminus_number NaN = NaN"

fun plus_number :: "number \<Rightarrow> number \<Rightarrow> number" where
  "plus_number (Fin a) (Fin b) = Fin (a + b)"
| "plus_number NaN y = NaN"
| "plus_number x NaN = NaN"
| "plus_number PosInf NegInf = NaN"
| "plus_number NegInf PosInf = NaN"
| "plus_number PosInf y = PosInf"
| "plus_number NegInf y = NegInf"
| "plus_number x PosInf = PosInf"
| "plus_number x NegInf = NegInf"

definition minus_number :: "number \<Rightarrow> number \<Rightarrow> number" where
  "minus_number x y = x + (- y)"

fun times_number :: "number \<Rightarrow> number \<Rightarrow> number" where
  "times_number (Fin a) (Fin b) = Fin (a * b)"
| "times_number NaN y = NaN"
| "times_number x NaN = NaN"
| "times_number PosInf PosInf = PosInf"
| "times_number PosInf NegInf = NegInf"
| "times_number NegInf PosInf = NegInf"
| "times_number NegInf NegInf = PosInf"
| "times_number PosInf (Fin b) = (if b = 0 then NaN else if 0 < b then PosInf else NegInf)"
| "times_number NegInf (Fin b) = (if b = 0 then NaN else if 0 < b then NegInf else PosInf)"
| "times_number (Fin a) PosInf = (if a = 0 then NaN else if 0 < a then PosInf else NegInf)"
| "times_number (Fin a) NegInf = (if a = 0 then NaN else if 0 < a then NegInf else PosInf)"

fun divide_number :: "number \<Rightarrow> number \<Rightarrow> number" where
  "divide_number (Fin a) (Fin b) =
     (if b \<noteq> 0 then Fin (a / b)
      else if a = 0 then NaN else if 0 < a then PosInf else NegInf)"
| "divide_number NaN y = NaN"
| "divide_number x NaN = NaN"
| "divide_number (Fin a) PosInf = Fin 0"
| "divide_number (Fin a) NegInf = Fin 0"
| "divide_number PosInf (Fin b) = (if 0 \<le> b then PosInf else NegInf)"
| "divide_number NegInf (Fin b) = (if 0 \<le> b then NegInf else PosInf)"
| "divide_number PosInf y = NaN"
| "divide_number NegInf y = NaN"

definition inverse_number :: "number \<Rightarrow> number" where
  "inverse_number x = divide (Fin 1) x"

fun less_number :: "number \<Rightarrow> number \<Rightarrow> bool" where
  "less_number (Fin a) (Fin b) = (a < b)"
| "less_number NaN y = False"
| "less_number x NaN = False"
| "less_number x NegInf = False"
| "less_number PosInf y = False"
| "less_number NegInf y = True"
| "less_number x PosInf = True"

fun less_eq_number :: "number \<Rightarrow> number \<Rightarrow> bool" where
  "less_eq_number (Fin a) (Fin b) = (a \<le> b)"
| "less_eq_number NaN y = False"
| "less_eq_number x NaN = False"
| "less_eq_number NegInf y = True"
| "less_eq_number x PosInf = True"
| "less_eq_number x NegInf = False"
| "less_eq_number PosInf y = False"

instance ..

end

text \<open>\<open>Math.max\<close> and \<open>Math.min\<close>: \<open>NaN\<close> as soon as one argument is \<open>NaN\<close>.\<close>

definition Math_max :: "number \<Rightarrow> number \<Rightarrow> number" where
  "Math_max x y = (if x = NaN \<or> y = NaN then NaN else if x < y then y else x)"

definition Math_min :: "number \<Rightarrow> number \<Rightarrow> number" where
  "Math_min x y = (if x = NaN \<or> y = NaN then NaN else if y < x then y else x)"

definition Math_min3 :: "number \<Rightarrow> number \<Rightarrow> number \<Rightarrow> number" where
  "Math_min3 x y z = Math_min (Math_min x y) z"

subsection \<open>Rounding to binary64\<close>

text \<open>
  The finite results above are exact, and the source rounds the result of every
  operation to a binary64 number. Where a property turns on that rounding, an
  operation is followed by \<open>round64\<close>: round to nearest, ties to even, with 53
  significant bits, for a real of the normal range (overflow and subnormal numbers are
  left out).
\<close>

definition round_even :: "real \<Rightarrow> int" where
  "round_even x =
     (let f = \<lfloor>x\<rfloor>; r = x - of_int f
      in if r < 1/2 then f else if r > 1/2 then f + 1 else if even f then f else f + 1)"

definition round64 :: "real \<Rightarrow> real" where
  "round64 x =
     (if x = 0 then 0
      else (let q = 2 powi (\<lfloor>log 2 \<bar>x\<bar>\<rfloor> - 52) in of_int (round_even (x / q)) * q))"

section \<open>Easing\<close>

text \<open>
  Modelled from the spec: the module \<^verbatim>\<open>./easing\<close> is imported by
  \<^verbatim>\<open>animation.ts\<close> and is not among the sources. It is taken as a parameter, a
  record of the two curves the source uses; the contract the specification gives for
  a curve (\<open>ease(0) = 0\<close>, \<open>ease(1) = 1\<close>, values in \<open>[0,1]\<close> on \<open>[0,1]\<close>) is a
  hypothesis wherever a property needs it.
\<close>

record Easing =
  linear :: "number \<Rightarrow> number"
  easeInOutQuad :: "number \<Rightarrow> number"

definition ease_ends :: "(number \<Rightarrow> number) \<Rightarrow> bool" where
  "ease_ends ease \<longleftrightarrow> ease (Fin 0) = Fin 0 \<and> ease (Fin 1) = Fin 1"

definition ease_range :: "(number \<Rightarrow> number) \<Rightarrow> bool" where
  "ease_range ease \<longleftrightarrow> (\<forall>x. 0 \<le> x \<and> x \<le> 1 \<longrightarrow> (\<exists>y. 0 \<le> y \<and> y \<le> 1 \<and> ease (Fin x) = Fin y))"

text \<open>
  Modelled from the spec: two concrete curves, to instantiate the parameter at concrete
  inputs. \<open>linear\<close> is the identity, as the specification gives it; \<open>easeInOutQuad\<close>
  is the usual quadratic ease-in-out curve, which meets the contract.
\<close>

definition std_linear :: "number \<Rightarrow> number" where
  "std_linear t = t"

definition std_easeInOutQuad :: "number \<Rightarrow> number" where
  "std_easeInOutQuad t =
     (if t < Fin (1/2) then Fin 2 * t * t else Fin (-1) + (Fin 4 - Fin 2 * t) * t)"

definition std_easing :: Easing where
  "std_easing = \<lparr>linear = std_linear, easeInOutQuad = std_easeInOutQuad\<rparr>"

section \<open>Styles and animations\<close>

text \<open>
  An object maps property names to values; \<open>Object.assign(a, b)\<close> is \<open>a ++ b\<close>: the
  properties of \<open>b\<close> overwrite those of \<open>a\<close>, the others stay. A value of a style is a
  number or the string \<^verbatim>\<open>translateX(${x}px)\<close>, which is kept as the number \<open>x\<close> it is
  built from (the conversion of a number to text is not modelled).
\<close>

type_synonym 'v obj = "string \<rightharpoonup> 'v"

datatype css_value = Num number | TranslateX number

type_synonym CSSProperties = "css_value obj"

type_synonym 'T Animation = "number \<Rightarrow> 'T"

type_synonym StyleAnimation = "number \<Rightarrow> CSSProperties"

definition distx :: number where
  "distx = Fin 250"

definition outHeight :: number where
  "outHeight = Fin 0"

definition EXIT :: number where
  "EXIT = Fin (3/10)"

definition SCROLL :: number where
  "SCROLL = Fin (7/10)"

definition ENTER :: number where
  "ENTER = Fin 1"

definition emptyStyle :: CSSProperties where
  "emptyStyle = Map.empty"

text \<open>\<open>tween\<close>; a caller that omits \<open>ease\<close> passes \<open>linear\<close> of the easing module.\<close>

definition tween :: "number \<Rightarrow> number \<Rightarrow> number \<Rightarrow> (number \<Rightarrow> number) \<Rightarrow> number" where
  "tween from to t ease = from + (to - from) * ease t"

text \<open>
  The arithmetic of \<open>tween\<close> on binary64 numbers, every operation rounded; \<open>eased\<close>
  is the value of \<open>ease(t)\<close>.
\<close>

definition tween64 :: "real \<Rightarrow> real \<Rightarrow> real \<Rightarrow> real" where
  "tween64 from to eased = round64 (from + round64 (round64 (to - from) * eased))"

subsection \<open>chain\<close>

text \<open>
  The loop of \<open>chain\<close>, with the loop variables \<open>i\<close>, \<open>prevTop\<close> and \<open>style\<close> as
  arguments; \<open>steps ! i\<close> is read below \<open>length steps\<close> only. A sub-animation that is
  \<open>undefined\<close> is \<open>None\<close>.
\<close>

function chain_loop ::
  "(number \<times> (number \<Rightarrow> 'v obj) option) list \<Rightarrow> number \<Rightarrow> nat \<Rightarrow> number \<Rightarrow> 'v obj \<Rightarrow> 'v obj" where
  "chain_loop steps t i prevTop style =
     (if i < length steps then
        (let (top', fn) = steps ! i;
             stept = (if t > top' then Fin 1 else (t - prevTop) / (top' - prevTop));
             style' = (case fn of Some f \<Rightarrow> style ++ f stept | None \<Rightarrow> style)
         in if t < top' then style' else chain_loop steps t (i + 1) top' style')
      else style)"
  by pat_completeness auto
termination
  by (relation "measure (\<lambda>(steps, t, i, prevTop, style). length steps - i)") auto

declare chain_loop.simps [simp del]

text \<open>A caller that omits \<open>start\<close> passes the empty object.\<close>

definition chain :: "(number \<times> (number \<Rightarrow> 'v obj) option) list \<Rightarrow> 'v obj \<Rightarrow> 'v obj Animation" where
  "chain steps start = (\<lambda>t. chain_loop steps t 0 (Fin 0) (Map.empty ++ start))"

text \<open>
  The fold of the specification, written from its words: walk the pairs in order with
  the previous breakpoint and the running style; a merge writes every property of the
  sub-animation's result over the running style and keeps the others.
\<close>

fun chain_fold ::
  "number \<Rightarrow> number \<Rightarrow> 'v obj \<Rightarrow> (number \<times> (number \<Rightarrow> 'v obj) option) list \<Rightarrow> 'v obj" where
  "chain_fold t prevBreakpoint running [] = running"
| "chain_fold t prevBreakpoint running ((threshold, subAnimation) # rest) =
     (let localT = (if t > threshold then Fin 1
                    else (t - prevBreakpoint) / (threshold - prevBreakpoint));
          merged = (case subAnimation of
                      None \<Rightarrow> running
                    | Some f \<Rightarrow> (\<lambda>k. case f localT k of Some v \<Rightarrow> Some v | None \<Rightarrow> running k))
      in if t < threshold then merged else chain_fold t threshold merged rest)"

declare chain_fold.simps(2) [simp del]

definition chain_spec :: "(number \<times> (number \<Rightarrow> 'v obj) option) list \<Rightarrow> 'v obj \<Rightarrow> 'v obj Animation" where
  "chain_spec segments start = (\<lambda>t. chain_fold t (Fin 0) start segments)"

text \<open>
  The breakpoint lists the specification calls valid: thresholds in \<open>(0, 1]\<close>, strictly
  increasing, the last one \<open>1\<close>.
\<close>

definition valid_breakpoints :: "(number \<times> (number \<Rightarrow> 'v obj) option) list \<Rightarrow> bool" where
  "valid_breakpoints segments \<longleftrightarrow>
     segments \<noteq> []
     \<and> list_all (\<lambda>(threshold, f). Fin 0 < threshold \<and> threshold \<le> Fin 1) segments
     \<and> sorted_wrt (<) (map fst segments)
     \<and> fst (last segments) = Fin 1"

subsection \<open>Line and focus animations\<close>

definition slideToLeft :: "Easing \<Rightarrow> number \<Rightarrow> number \<Rightarrow> StyleAnimation" where
  "slideToLeft E startOpacity endOpacity =
     (\<lambda>t. [''opacity'' \<mapsto> Num (tween startOpacity endOpacity t (linear E)),
           ''transform'' \<mapsto> TranslateX (tween (Fin 0) (- distx) t (linear E))])"

definition slideFromRight :: "Easing \<Rightarrow> number \<Rightarrow> number \<Rightarrow> StyleAnimation" where
  "slideFromRight E startOpacity endOpacity =
     (\<lambda>t. [''opacity'' \<mapsto> Num (tween startOpacity endOpacity t (linear E)),
           ''transform'' \<mapsto> TranslateX (tween distx (Fin 0) t (linear E))])"

definition shrinkHeight :: "Easing \<Rightarrow> number \<Rightarrow> StyleAnimation" where
  "shrinkHeight E lineHeight =
     (\<lambda>t. [''height'' \<mapsto> Num (tween lineHeight outHeight t (easeInOutQuad E))])"

definition growHeight :: "Easing \<Rightarrow> number \<Rightarrow> StyleAnimation" where
  "growHeight E lineHeight =
     (\<lambda>t. [''height'' \<mapsto> Num (tween outHeight lineHeight t (easeInOutQuad E))])"

definition fadeOut :: "Easing \<Rightarrow> number \<Rightarrow> StyleAnimation" where
  "fadeOut E offOpacity = (\<lambda>t. [''opacity'' \<mapsto> Num (tween (Fin 1) offOpacity t (linear E))])"

definition fadeIn :: "Easing \<Rightarrow> number \<Rightarrow> StyleAnimation" where
  "fadeIn E offOpacity = (\<lambda>t. [''opacity'' \<mapsto> Num (tween offOpacity (Fin 1) t (linear E))])"

definition exitLine :: "Easing \<Rightarrow> number \<Rightarrow> number \<Rightarrow> number \<Rightarrow> StyleAnimation" where
  "exitLine E fromOpacity toOpacity lineHeight =
     chain [(EXIT, Some (slideToLeft E fromOpacity toOpacity)),
            (SCROLL, Some (shrinkHeight E lineHeight)),
            (ENTER, None)]
           Map.empty"

definition enterLine :: "Easing \<Rightarrow> number \<Rightarrow> number \<Rightarrow> number \<Rightarrow> StyleAnimation" where
  "enterLine E fromOpacity toOpacity lineHeight =
     chain [(EXIT, None),
            (SCROLL, Some (growHeight E lineHeight)),
            (ENTER, Some (slideFromRight E fromOpacity toOpacity))]
           [''transform'' \<mapsto> TranslateX distx,
            ''height'' \<mapsto> Num (Fin 0),
            ''opacity'' \<mapsto> Num (Fin 0)]"

definition focus :: "Easing \<Rightarrow> number \<Rightarrow> number \<Rightarrow> StyleAnimation" where
  "focus E fromOpacity toOpacity =
     (\<lambda>t. [''opacity'' \<mapsto> Num (tween fromOpacity toOpacity t (linear E))])"

definition unfocus :: "Easing \<Rightarrow> number \<Rightarrow> number \<Rightarrow> StyleAnimation" where
  "unfocus E fromOpacity toOpacity =
     (\<lambda>t. [''opacity'' \<mapsto> Num (tween fromOpacity toOpacity t (linear E))])"


definition fadeOutIn :: "Easing \<Rightarrow> number \<Rightarrow> StyleAnimation" where
  "fadeOutIn E offOpacity =
     chain [(Fin (1/2), Some (fadeOut E offOpacity)), (Fin 1, Some (fadeIn E offOpacity))]
           Map.empty"

definition halfFadeIn :: "Easing \<Rightarrow> number \<Rightarrow> StyleAnimation" where
  "halfFadeIn E offOpacity =
     chain [(Fin (1/2), None), (Fin 1, Some (fadeIn E offOpacity))]
           [''opacity'' \<mapsto> Num (Fin 0)]"

definition halfFadeOut :: "Easing \<Rightarrow> number \<Rightarrow> StyleAnimation" where
  "halfFadeOut E offOpacity =
     chain [(Fin (1/2), Some (fadeOut E offOpacity)), (Fin 1, None)]
           Map.empty"

section \<open>Viewport fit\<close>

text \<open>
  Modelled from the spec: the types \<open>Step\<close> and \<open>Dimensions\<close> of the package
  \<^verbatim>\<open>code-surfer-types\<close> and the class \<open>Tuple\<close> of \<^verbatim>\<open>./tuple\<close> are not among the
  sources. A step has \<open>focusCenter\<close>, \<open>focusCount\<close> and optional measured
  \<open>dimensions\<close> (of which the source reads \<open>paddingTop\<close> and \<open>paddingBottom\<close>); a
  \<open>Dimensions\<close> record has the container and content geometry; a step pair is the
  ordered pair (previous, next), either side absent, and \<open>spread\<close> returns its two
  sides.
\<close>

record StepDimensions =
  paddingTop :: number
  paddingBottom :: number

record Step =
  focusCenter :: number
  focusCount :: number
  dimensions :: "StepDimensions option"

record Dimensions =
  containerHeight :: number
  containerWidth :: number
  contentWidth :: number
  lineHeight :: number

type_synonym 'a Tuple = "'a option \<times> 'a option"

definition spread :: "'a Tuple \<Rightarrow> 'a option \<times> 'a option" where
  "spread stepPair = stepPair"

datatype error = Error string

text \<open>
  \<open>getZoom\<close>: \<open>Inr None\<close> is the result \<open>null\<close>, \<open>Inl\<close> the error thrown.
\<close>

definition getZoom :: "Step option \<Rightarrow> Dimensions option \<Rightarrow> error + number option" where
  "getZoom step dims =
     (case step of
        None \<Rightarrow> Inr None
      | Some s \<Rightarrow>
          (case (dims, dimensions s) of
             (Some d, Some sd) \<Rightarrow>
               (let contentHeight = focusCount s * lineHeight d;
                    availableHeight =
                      containerHeight d - Math_max (paddingBottom sd) (paddingTop sd) * Fin 2;
                    yZoom = availableHeight / contentHeight;
                    xZoom = (Fin (9/10) * containerWidth d) / contentWidth d
                in Inr (Some (Math_min3 yZoom (Fin 1) xZoom)))
           | _ \<Rightarrow> Inl (Error ''Can't get zoom without dimensions'')))"

text \<open>
  \<open>a || b\<close> on a number or \<open>null\<close>: \<open>a\<close> when it is truthy (neither \<open>null\<close>, nor zero,
  nor \<open>NaN\<close>), else \<open>b\<close>. In arithmetic \<open>null\<close> converts to \<open>0\<close>.
\<close>

definition truthy :: "number option \<Rightarrow> bool" where
  "truthy x = (case x of None \<Rightarrow> False | Some n \<Rightarrow> n \<noteq> Fin 0 \<and> n \<noteq> NaN)"

definition js_or :: "number option \<Rightarrow> number option \<Rightarrow> number option" where
  "js_or a b = (if truthy a then a else b)"

definition ToNumber :: "number option \<Rightarrow> number" where
  "ToNumber x = (case x of None \<Rightarrow> Fin 0 | Some n \<Rightarrow> n)"

text \<open>
  \<open>scrollToFocus\<close>: the result reads the property \<open>scroll\<close> of the chained style
  (\<open>None\<close> would be \<open>undefined\<close>).
\<close>

definition scrollToFocus :: "Easing \<Rightarrow> Step Tuple \<Rightarrow> Dimensions option \<Rightarrow> number option Animation" where
  "scrollToFocus E stepPair dims =
     (case dims of
        None \<Rightarrow> (\<lambda>t. Some (Fin 0))
      | Some d \<Rightarrow>
          (let (prevStep, nextStep) = spread stepPair;
               prevCenter = (case prevStep of Some p \<Rightarrow> focusCenter p * lineHeight d | None \<Rightarrow> Fin 0);
               nextCenter = (case nextStep of Some n \<Rightarrow> focusCenter n * lineHeight d | None \<Rightarrow> Fin 0);
               animation =
                 chain [(EXIT, None),
                        (SCROLL, Some (\<lambda>t. [''scroll'' \<mapsto> tween prevCenter nextCenter t (easeInOutQuad E)])),
                        (ENTER, None)]
                       [''scroll'' \<mapsto> prevCenter]
           in (\<lambda>t. animation t ''scroll'')))"

text \<open>
  \<open>scaleToFocus\<close>: \<open>getZoom\<close> is called for both sides before the animation is
  returned, so its error is the error of \<open>scaleToFocus\<close>.
\<close>

definition scaleToFocus :: "Easing \<Rightarrow> Step Tuple \<Rightarrow> Dimensions option \<Rightarrow> error + number Animation" where
  "scaleToFocus E stepPair dims =
     (case dims of
        None \<Rightarrow> Inr (\<lambda>t. Fin 1)
      | Some d \<Rightarrow>
          (let (prev, next) = spread stepPair
           in case getZoom prev (Some d) of
                Inl e \<Rightarrow> Inl e
              | Inr prevZoom \<Rightarrow>
                  (case getZoom next (Some d) of
                     Inl e \<Rightarrow> Inl e
                   | Inr nextZoom \<Rightarrow>
                       Inr (\<lambda>t. tween (ToNumber (js_or prevZoom nextZoom))
                                      (ToNumber (js_or nextZoom prevZoom))
                                      t (easeInOutQuad E)))))"

text \<open>
  The caller's side of \<open>scaleToFocus\<close>: build the animation, then call it at \<open>t\<close>.
\<close>

definition animate :: "error + 'a Animation \<Rightarrow> number \<Rightarrow> error + 'a" where
  "animate built t = (case built of Inl e \<Rightarrow> Inl e | Inr animation \<Rightarrow> Inr (animation t))"

text \<open>
  The scroll target of one side of a step pair, in the words of the specification:
  \<open>focusCenter * lineHeight\<close>, and \<open>0\<close> if that side is absent.
\<close>

definition scroll_target :: "Step option \<Rightarrow> Dimensions \<Rightarrow> number" where
  "scroll_target side d = (case side of Some s \<Rightarrow> focusCenter s * lineHeight d | None \<Rightarrow> Fin 0)"

section \<open>chain on a store of objects\<close>

text \<open>
  To speak about aliasing, objects live in a store and are named by references: the
  store is the list of the objects allocated so far, a reference is an index into it,
  and \<open>{}\<close> allocates at the end. \<open>Object.assign(target, source)\<close> updates the
  object at \<open>target\<close> in place and leaves every other object alone. A
  sub-animation is a function of the progress alone; the object it returns is read
  once by \<open>Object.assign\<close> and then dropped, so it is passed as a value.
  \<open>chain_store\<close> is the function \<open>chain\<close> returns: it returns the reference of the
  style and the store after the call.
\<close>

type_synonym 'v store = "'v obj list"

definition new_object :: "'v store \<Rightarrow> nat \<times> 'v store" where
  "new_object h = (length h, h @ [Map.empty])"

definition Object_assign :: "'v store \<Rightarrow> nat \<Rightarrow> 'v obj \<Rightarrow> 'v store" where
  "Object_assign h target source = h[target := (h ! target) ++ source]"

function chain_loop_store ::
  "(number \<times> (number \<Rightarrow> 'v obj) option) list \<Rightarrow> number \<Rightarrow> nat \<Rightarrow> number \<Rightarrow> nat \<Rightarrow> 'v store
     \<Rightarrow> 'v store" where
  "chain_loop_store steps t i prevTop style h =
     (if i < length steps then
        (let (top', fn) = steps ! i;
             stept = (if t > top' then Fin 1 else (t - prevTop) / (top' - prevTop));
             h' = (case fn of Some f \<Rightarrow> Object_assign h style (f stept) | None \<Rightarrow> h)
         in if t < top' then h' else chain_loop_store steps t (i + 1) top' style h')
      else h)"
  by pat_completeness auto
termination
  by (relation "measure (\<lambda>(steps, t, i, prevTop, style, h). length steps - i)") auto

declare chain_loop_store.simps [simp del]

definition chain_store ::
  "(number \<times> (number \<Rightarrow> 'v obj) option) list \<Rightarrow> nat \<Rightarrow> number \<Rightarrow> 'v store \<Rightarrow> nat \<times> 'v store" where
  "chain_store steps start =
     (\<lambda>t h. let (style, h1) = new_object h;
                h2 = Object_assign h1 style (h1 ! start)
            in (style, chain_loop_store steps t 0 (Fin 0) style h2))"

section \<open>Concrete inputs\<close>

definition dims_200 :: Dimensions where
  "dims_200 = \<lparr>containerHeight = Fin 200, containerWidth = Fin 100,
                contentWidth = Fin 50, lineHeight = Fin 10\<rparr>"

definition step_a :: Step where
  "step_a = \<lparr>focusCenter = Fin 2, focusCount = Fin 10,
              dimensions = Some \<lparr>paddingTop = Fin 0, paddingBottom = Fin 0\<rparr>\<rparr>"

definition step_b :: Step where
  "step_b = \<lparr>focusCenter = Fin 5, focusCount = Fin 10,
              dimensions = Some \<lparr>paddingTop = Fin 100, paddingBottom = Fin 0\<rparr>\<rparr>"

definition step_inf :: Step where
  "step_inf = \<lparr>focusCenter = PosInf, focusCount = Fin 10,
                dimensions = Some \<lparr>paddingTop = Fin 0, paddingBottom = Fin 0\<rparr>\<rparr>"

definition unmeasured_step :: Step where
  "unmeasured_step = \<lparr>focusCenter = Fin 2, focusCount = Fin 10, dimensions = None\<rparr>"

section \<open>Properties\<close>

subsection \<open>Arithmetic of finite numbers\<close>

lemma minus_Fin [simp]: "Fin a - Fin b = Fin (a - b)"
  by (simp add: minus_number_def)

subsection \<open>Rounding\<close>

lemma round64_binade:
  assumes "2 powi e \<le> \<bar>x\<bar>" "\<bar>x\<bar> < 2 powi (e + 1)"
  shows "round64 x = of_int (round_even (x / 2 powi (e - 52))) * 2 powi (e - 52)"
proof -
  have pos: "0 < \<bar>x\<bar>"
    using assms(1) zero_less_power_int [of "2 :: real" e] by linarith
  have up: "2 powr (real_of_int e + 1) = (2 :: real) powi (e + 1)"
    using powr_real_of_int' [of 2 "e + 1"] by simp
  have "\<lfloor>log 2 \<bar>x\<bar>\<rfloor> = e"
    using assms pos by (simp add: floor_log_eq_powr_iff powr_real_of_int' up)
  then show ?thesis
    using pos by (simp add: round64_def Let_def)
qed



text \<open>
  The scroll targets of the focus centers \<open>12\<close> and \<open>3.5\<close> at the line height
  \<open>19.2\<close>, printed \<open>230.39999999999998\<close> and \<open>67.2\<close>, and the tween between them
  where \<open>ease(t) = 1\<close>, printed \<open>67.19999999999999\<close>.
\<close>

lemma round64_line_height: "round64 (96/5) = 5404319552844595 / 281474976710656"
  by (subst round64_binade [of 4]) (simp_all add: round_even_def power_int_minus)

lemma round64_target_12:
  "round64 (12 * round64 (96/5)) = 2026619832316723 / 8796093022208"
  unfolding round64_line_height
  by (subst round64_binade [of 7]) (simp_all add: round_even_def power_int_minus)

lemma round64_target_7_2:
  "round64 (7/2 * round64 (96/5)) = 4728779608739021 / 70368744177664"
  unfolding round64_line_height
  by (subst round64_binade [of 6]) (simp_all add: round_even_def power_int_minus)

lemma tween64_targets:
  "tween64 (round64 (12 * round64 (96/5))) (round64 (7/2 * round64 (96/5))) 1
     = 1182194902184755 / 17592186044416"
proof -
  have d: "round64 (4728779608739021 / 70368744177664 - 2026619832316723 / 8796093022208)
      = - (2871044762448691 / 17592186044416)"
    by (subst round64_binade [of 7]) (simp_all add: round_even_def power_int_minus)
  have m: "round64 (- (2871044762448691 / 17592186044416) * 1)
      = - (2871044762448691 / 17592186044416)"
    by (subst round64_binade [of 7]) (simp_all add: round_even_def power_int_minus)
  have s: "round64 (2026619832316723 / 8796093022208 + - (2871044762448691 / 17592186044416))
      = 1182194902184755 / 17592186044416"
    by (subst round64_binade [of 6]) (simp_all add: round_even_def power_int_minus)
  show ?thesis
    by (simp only: tween64_def round64_target_12 round64_target_7_2 d m s)
qed

subsection \<open>chain\<close>

lemma chain_loop_drop:
  "chain_loop steps t i prevTop style = chain_fold t prevTop style (drop i steps)"
proof (induction steps t i prevTop style rule: chain_loop.induct)
  case (1 steps t i prevTop style)
  show ?case
  proof (cases "i < length steps")
    case False
    then show ?thesis by (subst chain_loop.simps) simp
  next
    case True
    obtain top' fn where tf: "steps ! i = (top', fn)" by (cases "steps ! i")
    have d: "drop i steps = (top', fn) # drop (i + 1) steps"
      using True tf Cons_nth_drop_Suc[of i steps] by simp
    show ?thesis
    proof (cases "t < top'")
      case lt: True
      show ?thesis
        using True tf d lt
        by (subst chain_loop.simps) (simp add: chain_fold.simps(2) Let_def map_add_def split: option.splits)
    next
      case ge: False
      have ih: "chain_loop steps t (i + 1) top' s' = chain_fold t top' s' (drop (i + 1) steps)"
        if "s' = (case fn of Some f \<Rightarrow> style ++ f (if t > top' then Fin 1 else (t - prevTop) / (top' - prevTop)) | None \<Rightarrow> style)" for s'
        using "1.IH"[OF True tf[symmetric] refl refl that] ge by simp
      show ?thesis
        using True tf d ge ih
        by (subst chain_loop.simps) (simp add: chain_fold.simps(2) Let_def map_add_def split: option.splits)
    qed
  qed
qed

lemma chain_as_fold: "chain steps start t = chain_fold t (Fin 0) start steps"
  by (simp add: chain_def chain_loop_drop)

text \<open>One round of the loop, for evaluating \<open>chain\<close> on a list that is written out.\<close>

lemma chain_fold_Cons:
  "chain_fold t prevTop style ((top', fn) # rest) =
     (if t < top' then
        (case fn of
           None \<Rightarrow> style
         | Some f \<Rightarrow> style ++ f (if t > top' then Fin 1 else (t - prevTop) / (top' - prevTop)))
      else
        chain_fold t top'
          (case fn of
             None \<Rightarrow> style
           | Some f \<Rightarrow> style ++ f (if t > top' then Fin 1 else (t - prevTop) / (top' - prevTop)))
          rest)"
  by (simp add: chain_fold.simps(2) Let_def map_add_def split: option.splits)

lemmas chain_eval = chain_as_fold chain_fold_Cons

lemmas phase_defs = EXIT_def SCROLL_def ENTER_def

text \<open>
  C1: for every breakpoint list and start style, the animation returned by \<open>chain\<close>
  computes, at every progress \<open>t\<close>, the short-circuiting fold of the specification:
  it walks the (threshold, sub-animation) pairs in order, computes the local progress
  \<open>1\<close> if \<open>t > threshold\<close> and \<open>(t - prevBreakpoint) / (threshold - prevBreakpoint)\<close>
  otherwise, merges the result of a present sub-animation into the running style (last
  write wins), returns the running style at once when \<open>t < threshold\<close>, otherwise
  continues with the threshold as previous breakpoint, and returns the accumulated
  style when the pairs are exhausted.
\<close>

theorem chain_refines_spec: "chain steps start t = chain_spec steps start t"
  by (simp add: chain_def chain_spec_def chain_loop_drop)

subsection \<open>The easing parameter at the usual curves\<close>

lemma std_easing_ends:
  "ease_ends (linear std_easing)" "ease_ends (easeInOutQuad std_easing)"
  by (simp_all add: ease_ends_def std_easing_def std_linear_def std_easeInOutQuad_def)

lemma std_easeInOutQuad_range:
  assumes "0 \<le> x" "x \<le> 1"
  shows "\<exists>y. 0 \<le> y \<and> y \<le> 1 \<and> std_easeInOutQuad (Fin x) = Fin y"
proof (cases "x < 1/2")
  case True
  have "x * x \<le> (1/2) * (1/2)"
    using True assms by (intro mult_mono) auto
  then show ?thesis
    using True assms by (simp add: std_easeInOutQuad_def)
next
  case False
  define q where "q = (1 - x) * (1 - x)"
  have e: "-1 + (4 - 2 * x) * x = 1 - 2 * q"
    by (simp add: q_def algebra_simps)
  have "q \<le> (1/2) * (1/2)"
    unfolding q_def using False assms by (intro mult_mono) auto
  moreover have "0 \<le> q"
    by (simp add: q_def)
  ultimately have "0 \<le> -1 + (4 - 2 * x) * x" "-1 + (4 - 2 * x) * x \<le> 1"
    unfolding e by simp_all
  then show ?thesis
    using False by (simp add: std_easeInOutQuad_def)
qed

lemma std_easing_range: "ease_range (easeInOutQuad std_easing)"
  using std_easeInOutQuad_range by (simp add: ease_range_def std_easing_def)

subsection \<open>chain at progress 0\<close>

text \<open>
  C2 (amended): for every valid breakpoint list and every start style, the
  animation returned by \<open>chain\<close> at progress \<open>0\<close> returns the start style with the
  result of the first segment's sub-animation at local progress \<open>0\<close> merged over it;
  it is the start style itself when the first segment has no sub-animation.
\<close>

theorem chain_at_zero:
  assumes "valid_breakpoints segments"
  shows "chain segments start (Fin 0) =
           (case snd (hd segments) of None \<Rightarrow> start | Some f \<Rightarrow> start ++ f (Fin 0))"
proof -
  obtain threshold fn rest where s: "segments = (threshold, fn) # rest"
    using assms by (cases segments) (auto simp: valid_breakpoints_def)
  have "Fin 0 < threshold" "threshold \<le> Fin 1"
    using assms s by (auto simp: valid_breakpoints_def)
  then obtain a where a: "threshold = Fin a" "0 < a"
    by (cases threshold) auto
  show ?thesis
    using s a by (simp add: chain_eval split: option.splits)
qed

theorem chain_at_zero_witness:
  "valid_breakpoints [(Fin (1/2), None), (Fin 1, Some (fadeIn std_easing (Fin 0)))]
   \<and> halfFadeIn std_easing (Fin 0) (Fin 0) = [''opacity'' \<mapsto> Num (Fin 0)]"
proof -
  have v: "valid_breakpoints [(Fin (1/2), None), (Fin 1, Some (fadeIn std_easing (Fin 0)))]"
    by (simp add: valid_breakpoints_def)
  show ?thesis
    using v chain_at_zero [OF v, of "[''opacity'' \<mapsto> Num (Fin 0)]"]
    by (simp add: halfFadeIn_def)
qed

text \<open>
  C2 as the specification states it (the style at progress \<open>0\<close> is the start
  style) does not hold: \<open>fadeOutIn\<close> chains a valid breakpoint list from the empty
  start style, and at progress \<open>0\<close> its style has the opacity \<open>1\<close>.
\<close>

theorem chain_at_zero_counterexample:
  "valid_breakpoints [(Fin (1/2), Some (fadeOut std_easing (Fin 0))),
                      (Fin 1, Some (fadeIn std_easing (Fin 0)))]
   \<and> chain [(Fin (1/2), Some (fadeOut std_easing (Fin 0))),
             (Fin 1, Some (fadeIn std_easing (Fin 0)))] emptyStyle (Fin 0)
       = [''opacity'' \<mapsto> Num (Fin 1)]
   \<and> chain [(Fin (1/2), Some (fadeOut std_easing (Fin 0))),
             (Fin 1, Some (fadeIn std_easing (Fin 0)))] emptyStyle (Fin 0)
       \<noteq> emptyStyle"
  by (simp add: valid_breakpoints_def chain_eval fadeOut_def emptyStyle_def tween_def
        std_easing_def std_linear_def)

subsection \<open>getZoom\<close>

lemma times_number_commute: "(x :: number) * y = y * x"
  by (cases x; cases y) (simp_all add: mult.commute)

lemma Math_max_commute: "Math_max x y = Math_max y x"
  by (cases x; cases y) (auto simp: Math_max_def)

lemma Math_min3_le_1: "\<not> Math_min3 y (Fin 1) x > Fin 1"
  by (cases x; cases y) (auto simp: Math_min3_def Math_min_def)

text \<open>
  C3: for every present step with measured dimensions and every present
  \<open>Dimensions\<close> record, \<open>getZoom\<close> returns \<open>min(yZoom, 1, xZoom)\<close> where
  \<open>contentHeight = focusCount * lineHeight\<close>,
  \<open>availableHeight = containerHeight - 2 * max(paddingTop, paddingBottom)\<close>,
  \<open>yZoom = availableHeight / contentHeight\<close> and
  \<open>xZoom = 0.9 * containerWidth / contentWidth\<close>; the result is never greater than
  \<open>1\<close>; and with \<open>containerHeight = 200\<close>, both paddings \<open>0\<close>, \<open>lineHeight = 10\<close>,
  \<open>focusCount = 10\<close>, \<open>containerWidth = 100\<close> and \<open>contentWidth = 50\<close> the result is
  \<open>1\<close>.
\<close>

theorem getZoom_formula:
  "(dimensions s = Some sd \<longrightarrow>
      getZoom (Some s) (Some d) =
        (let contentHeight = focusCount s * lineHeight d;
             availableHeight =
               containerHeight d - Fin 2 * Math_max (paddingTop sd) (paddingBottom sd);
             yZoom = availableHeight / contentHeight;
             xZoom = Fin (9/10) * containerWidth d / contentWidth d
         in Inr (Some (Math_min3 yZoom (Fin 1) xZoom)))
      \<and> (\<exists>z. getZoom (Some s) (Some d) = Inr (Some z) \<and> \<not> z > Fin 1))
   \<and> getZoom
         (Some \<lparr>focusCenter = c, focusCount = Fin 10,
                dimensions = Some \<lparr>paddingTop = Fin 0, paddingBottom = Fin 0\<rparr>\<rparr>)
         (Some \<lparr>containerHeight = Fin 200, containerWidth = Fin 100,
                contentWidth = Fin 50, lineHeight = Fin 10\<rparr>)
       = Inr (Some (Fin 1))"
proof -
  have general: "getZoom (Some s) (Some d) =
        (let contentHeight = focusCount s * lineHeight d;
             availableHeight =
               containerHeight d - Fin 2 * Math_max (paddingTop sd) (paddingBottom sd);
             yZoom = availableHeight / contentHeight;
             xZoom = Fin (9/10) * containerWidth d / contentWidth d
         in Inr (Some (Math_min3 yZoom (Fin 1) xZoom)))
      \<and> (\<exists>z. getZoom (Some s) (Some d) = Inr (Some z) \<and> \<not> z > Fin 1)"
    if "dimensions s = Some sd"
    using that
    by (simp add: getZoom_def Let_def Math_min3_le_1 times_number_commute [of "Fin 2"]
          Math_max_commute [of "paddingTop sd"])
  have example: "getZoom
         (Some \<lparr>focusCenter = c, focusCount = Fin 10,
                dimensions = Some \<lparr>paddingTop = Fin 0, paddingBottom = Fin 0\<rparr>\<rparr>)
         (Some \<lparr>containerHeight = Fin 200, containerWidth = Fin 100,
                contentWidth = Fin 50, lineHeight = Fin 10\<rparr>)
       = Inr (Some (Fin 1))"
    by (simp add: getZoom_def Math_max_def Math_min3_def Math_min_def)
  show ?thesis
    using general example by blast
qed

theorem getZoom_formula_witness:
  "dimensions step_b = Some \<lparr>paddingTop = Fin 100, paddingBottom = Fin 0\<rparr>
   \<and> getZoom (Some step_b) (Some dims_200) = Inr (Some (Fin 0))"
  using getZoom_formula [of step_b "\<lparr>paddingTop = Fin 100, paddingBottom = Fin 0\<rparr>" dims_200]
  by (simp add: step_b_def dims_200_def Math_max_def Math_min3_def Math_min_def)

text \<open>
  C4: \<open>getZoom\<close> returns \<open>null\<close> for every absent step; it raises an error exactly
  when the step is present and either lacks measured dimensions or the \<open>dimensions\<close>
  argument is absent; this is its only error; and it returns a number exactly when
  the step, its measured dimensions and the \<open>dimensions\<close> argument are all present,
  so never when it raises.
\<close>

theorem getZoom_failure:
  "getZoom None dims = Inr None
   \<and> ((\<exists>e. getZoom step dims = Inl e)
        \<longleftrightarrow> (\<exists>s. step = Some s \<and> (dimensions s = None \<or> dims = None)))
   \<and> (\<forall>e. getZoom step dims = Inl e \<longrightarrow> e = Error ''Can't get zoom without dimensions'')
   \<and> ((\<exists>z. getZoom step dims = Inr (Some z))
        \<longleftrightarrow> (\<exists>s. step = Some s \<and> dimensions s \<noteq> None \<and> dims \<noteq> None))"
  by (auto simp: getZoom_def Let_def split: option.splits)

theorem getZoom_failure_witness:
  "getZoom (Some unmeasured_step) (Some dims_200)
     = Inl (Error ''Can't get zoom without dimensions'')
   \<and> getZoom (Some step_a) None = Inl (Error ''Can't get zoom without dimensions'')
   \<and> getZoom None (None :: Dimensions option) = Inr None"
  using getZoom_failure [of "Some dims_200" "Some unmeasured_step"]
    getZoom_failure [of None "Some step_a"]
  by (auto simp: unmeasured_step_def)

subsection \<open>scrollToFocus\<close>

lemma scrollToFocus_chain:
  "scrollToFocus E (prev, next) (Some d) t =
     chain [(EXIT, None),
            (SCROLL, Some (\<lambda>t. [''scroll'' \<mapsto>
               tween (scroll_target prev d) (scroll_target next d) t (easeInOutQuad E)])),
            (ENTER, None)]
           [''scroll'' \<mapsto> scroll_target prev d] t ''scroll''"
  by (simp add: scrollToFocus_def spread_def scroll_target_def Let_def)

lemma scrollToFocus_exit:
  "t < EXIT \<Longrightarrow> scrollToFocus E (prev, next) (Some d) t = Some (scroll_target prev d)"
  unfolding scrollToFocus_chain by (cases t) (simp_all add: chain_eval phase_defs)

lemma scrollToFocus_scroll:
  "EXIT \<le> t \<Longrightarrow> t \<le> SCROLL \<Longrightarrow>
   scrollToFocus E (prev, next) (Some d) t =
     Some (tween (scroll_target prev d) (scroll_target next d)
             ((t - EXIT) / (SCROLL - EXIT)) (easeInOutQuad E))"
  unfolding scrollToFocus_chain by (cases t) (auto simp add: chain_eval phase_defs)

lemma scrollToFocus_enter_tween:
  "t > SCROLL \<Longrightarrow>
   scrollToFocus E (prev, next) (Some d) t =
     Some (tween (scroll_target prev d) (scroll_target next d) (Fin 1) (easeInOutQuad E))"
  unfolding scrollToFocus_chain by (cases t) (auto simp add: chain_eval phase_defs)

lemma phase_cases:
  assumes "t \<noteq> NaN"
  obtains (exit) "t < EXIT"
    | (scroll) r where "t = Fin r" "3/10 \<le> r" "r \<le> 7/10"
    | (enter) "t > SCROLL"
proof (cases t)
  case (Fin r)
  consider "r < 3/10" | "3/10 \<le> r \<and> r \<le> 7/10" | "7/10 < r"
    by linarith
  then show ?thesis
    using Fin exit scroll enter by cases (auto simp: phase_defs)
next
  case PosInf
  then show ?thesis using enter by (simp add: phase_defs)
next
  case NegInf
  then show ?thesis using exit by (simp add: phase_defs)
next
  case NaN
  then show ?thesis using assms by simp
qed

lemma scrollToFocus_same_target:
  assumes range: "ease_range (easeInOutQuad E)"
    and p: "scroll_target prev d = Fin c" and n: "scroll_target next d = Fin c"
    and t: "t \<noteq> NaN"
  shows "scrollToFocus E (prev, next) (Some d) t = Some (Fin c)"
proof -
  have tw: "tween (Fin c) (Fin c) (Fin x) (easeInOutQuad E) = Fin c"
    if x: "0 \<le> x" "x \<le> 1" for x
  proof -
    obtain y where "easeInOutQuad E (Fin x) = Fin y"
      using range x by (auto simp: ease_range_def)
    then show ?thesis by (simp add: tween_def)
  qed
  from t show ?thesis
  proof (cases rule: phase_cases)
    case exit
    then show ?thesis by (simp add: scrollToFocus_exit p)
  next
    case (scroll r)
    have local: "(t - EXIT) / (SCROLL - EXIT) = Fin ((r - 3/10) / (4/10))"
      using scroll by (simp add: phase_defs)
    have "0 \<le> (r - 3/10) / (4/10)" "(r - 3/10) / (4/10) \<le> 1"
      using scroll by simp_all
    then have "tween (Fin c) (Fin c) ((t - EXIT) / (SCROLL - EXIT)) (easeInOutQuad E) = Fin c"
      unfolding local by (rule tw)
    moreover have "EXIT \<le> t" "t \<le> SCROLL"
      using scroll by (simp_all add: phase_defs)
    ultimately show ?thesis by (simp add: scrollToFocus_scroll p n)
  next
    case enter
    then show ?thesis by (simp add: scrollToFocus_enter_tween p n tw)
  qed
qed

text \<open>
  C5 (amended): with \<open>dimensions\<close> absent \<open>scrollToFocus\<close> returns the animation that
  is \<open>0\<close> at every \<open>t\<close>. With \<open>dimensions\<close> present, its animation is, in the EXIT
  phase (\<open>t < 0.3\<close>), the scroll target of the previous side,
  \<open>focusCenter * lineHeight\<close> (\<open>0\<close> if that side is absent); in the SCROLL phase
  (\<open>0.3 \<le> t \<le> 0.7\<close>), the eased tween between the two targets at the local progress
  of that phase; in the ENTER phase (\<open>t > 0.7\<close>), constant at the end value of that
  tween, \<open>prevTarget + (nextTarget - prevTarget) * ease(1)\<close>. When both sides have
  the same \<open>focusCenter\<close> and the target is finite, the animation is that target at
  every \<open>t\<close>, for a curve with the range of the specification's contract.
\<close>

theorem scrollToFocus_phases:
  "scrollToFocus E stepPair None t = Some (Fin 0)
   \<and> (\<forall>t. t < EXIT \<longrightarrow>
         scrollToFocus E (prev, next) (Some d) t = Some (scroll_target prev d))
   \<and> (\<forall>t. EXIT \<le> t \<and> t \<le> SCROLL \<longrightarrow>
         scrollToFocus E (prev, next) (Some d) t =
           Some (tween (scroll_target prev d) (scroll_target next d)
                   ((t - EXIT) / (SCROLL - EXIT)) (easeInOutQuad E)))
   \<and> (\<forall>t. t > SCROLL \<longrightarrow>
         scrollToFocus E (prev, next) (Some d) t =
           Some (tween (scroll_target prev d) (scroll_target next d) (Fin 1)
                   (easeInOutQuad E)))
   \<and> (ease_range (easeInOutQuad E) \<and> focusCenter p = focusCenter n
        \<and> focusCenter p * lineHeight d = Fin c
        \<longrightarrow> (\<forall>t. t \<noteq> NaN \<longrightarrow> scrollToFocus E (Some p, Some n) (Some d) t = Some (Fin c)))"
proof -
  have absent: "scrollToFocus E stepPair None t = Some (Fin 0)"
    by (simp add: scrollToFocus_def)
  have same: "scrollToFocus E (Some p, Some n) (Some d) t' = Some (Fin c)"
    if "ease_range (easeInOutQuad E)" "focusCenter p = focusCenter n"
      "focusCenter p * lineHeight d = Fin c" "t' \<noteq> NaN" for t'
    using that by (intro scrollToFocus_same_target) (simp_all add: scroll_target_def)
  have same': "scrollToFocus E (Some p, Some n) (Some d) t' = Some (Fin c)"
    if "ease_range (easeInOutQuad E) \<and> focusCenter p = focusCenter n
          \<and> focusCenter p * lineHeight d = Fin c" "t' \<noteq> NaN" for t'
    using that same [of t'] by blast
  show ?thesis
  proof (intro conjI impI allI)
    show "scrollToFocus E stepPair None t = Some (Fin 0)"
      by (fact absent)
  next
    fix t'
    assume "t' < EXIT"
    then show "scrollToFocus E (prev, next) (Some d) t' = Some (scroll_target prev d)"
      by (rule scrollToFocus_exit)
  next
    fix t'
    assume "EXIT \<le> t' \<and> t' \<le> SCROLL"
    then show "scrollToFocus E (prev, next) (Some d) t' =
        Some (tween (scroll_target prev d) (scroll_target next d)
                ((t' - EXIT) / (SCROLL - EXIT)) (easeInOutQuad E))"
      by (simp add: scrollToFocus_scroll)
  next
    fix t'
    assume "t' > SCROLL"
    then show "scrollToFocus E (prev, next) (Some d) t' =
        Some (tween (scroll_target prev d) (scroll_target next d) (Fin 1) (easeInOutQuad E))"
      by (rule scrollToFocus_enter_tween)
  next
    fix t'
    assume "ease_range (easeInOutQuad E) \<and> focusCenter p = focusCenter n
          \<and> focusCenter p * lineHeight d = Fin c"
      and "t' \<noteq> NaN"
    then show "scrollToFocus E (Some p, Some n) (Some d) t' = Some (Fin c)"
      by (rule same')
  qed
qed

theorem scrollToFocus_phases_witness:
  "ease_range (easeInOutQuad std_easing)
   \<and> scroll_target (Some step_a) dims_200 = Fin 20
   \<and> scroll_target (Some step_b) dims_200 = Fin 50
   \<and> scrollToFocus std_easing (Some step_a, Some step_b) (Some dims_200) (Fin (1/10)) = Some (Fin 20)
   \<and> scrollToFocus std_easing (Some step_a, Some step_b) (Some dims_200) (Fin (3/10)) = Some (Fin 20)
   \<and> scrollToFocus std_easing (Some step_a, Some step_b) (Some dims_200) (Fin (7/10)) = Some (Fin 50)
   \<and> scrollToFocus std_easing (Some step_a, Some step_b) (Some dims_200) (Fin (9/10)) = Some (Fin 50)
   \<and> scrollToFocus std_easing (Some step_a, Some step_a) (Some dims_200) (Fin (1/2)) = Some (Fin 20)"
proof -
  have ta: "scroll_target (Some step_a) dims_200 = Fin 20"
    and tb: "scroll_target (Some step_b) dims_200 = Fin 50"
    by (simp_all add: scroll_target_def step_a_def step_b_def dims_200_def)
  have ca: "focusCenter step_a * lineHeight dims_200 = Fin 20"
    by (simp add: step_a_def dims_200_def)
  note ph = scrollToFocus_phases [of std_easing "(None, None)" "Fin 0" "Some step_a" "Some step_b"
      dims_200 step_a step_a 20]
  have e: "Fin (1/10) < EXIT" "EXIT \<le> Fin (3/10)" "Fin (3/10) \<le> SCROLL"
    "EXIT \<le> Fin (7/10)" "Fin (7/10) \<le> SCROLL" "Fin (9/10) > SCROLL"
    by (simp_all add: phase_defs)
  have 1: "scrollToFocus std_easing (Some step_a, Some step_b) (Some dims_200) (Fin (1/10)) = Some (Fin 20)"
    using ph e ta by simp
  have "scrollToFocus std_easing (Some step_a, Some step_b) (Some dims_200) (Fin (3/10)) =
      Some (tween (Fin 20) (Fin 50) ((Fin (3/10) - EXIT) / (SCROLL - EXIT)) (easeInOutQuad std_easing))"
    using ph e ta tb by simp
  then have 2: "scrollToFocus std_easing (Some step_a, Some step_b) (Some dims_200) (Fin (3/10)) = Some (Fin 20)"
    by (simp add: phase_defs tween_def std_easing_def std_easeInOutQuad_def)
  have "scrollToFocus std_easing (Some step_a, Some step_b) (Some dims_200) (Fin (7/10)) =
      Some (tween (Fin 20) (Fin 50) ((Fin (7/10) - EXIT) / (SCROLL - EXIT)) (easeInOutQuad std_easing))"
    using ph e ta tb by simp
  then have 3: "scrollToFocus std_easing (Some step_a, Some step_b) (Some dims_200) (Fin (7/10)) = Some (Fin 50)"
    by (simp add: phase_defs tween_def std_easing_def std_easeInOutQuad_def)
  have "scrollToFocus std_easing (Some step_a, Some step_b) (Some dims_200) (Fin (9/10)) =
      Some (tween (Fin 20) (Fin 50) (Fin 1) (easeInOutQuad std_easing))"
    using ph e ta tb by simp
  then have 4: "scrollToFocus std_easing (Some step_a, Some step_b) (Some dims_200) (Fin (9/10)) = Some (Fin 50)"
    by (simp add: tween_def std_easing_def std_easeInOutQuad_def)
  have 5: "scrollToFocus std_easing (Some step_a, Some step_a) (Some dims_200) (Fin (1/2)) = Some (Fin 20)"
    using ph ca std_easing_range by simp
  show ?thesis
    using 1 2 3 4 5 ta tb std_easing_range by simp
qed

text \<open>
  C5 as the specification states it (in the ENTER phase the animation is the target
  of the next side) does not hold. With a previous step whose \<open>focusCenter\<close> is
  \<open>Infinity\<close>, the ENTER value is \<open>Infinity + (50 - Infinity) * 1\<close>, which is \<open>NaN\<close>,
  where the next target is \<open>50\<close>. With finite targets the end value of the tween
  misses the next target by rounding: for the focus centers \<open>12\<close> and \<open>3.5\<close> at the
  line height \<open>19.2\<close> it is \<open>67.19999999999999\<close>, where the next target is \<open>67.2\<close>.
\<close>

theorem scrollToFocus_enter_counterexample:
  "Fin (9/10) > SCROLL
   \<and> easeInOutQuad std_easing (Fin 1) = Fin 1
   \<and> scroll_target (Some step_b) dims_200 = Fin 50
   \<and> scrollToFocus std_easing (Some step_inf, Some step_b) (Some dims_200) (Fin (9/10)) = Some NaN
   \<and> scrollToFocus std_easing (Some step_inf, Some step_b) (Some dims_200) (Fin (9/10))
       \<noteq> Some (scroll_target (Some step_b) dims_200)
   \<and> round64 (7/2 * round64 (96/5)) = 4728779608739021 / 70368744177664
   \<and> tween64 (round64 (12 * round64 (96/5))) (round64 (7/2 * round64 (96/5))) 1
       = 1182194902184755 / 17592186044416
   \<and> tween64 (round64 (12 * round64 (96/5))) (round64 (7/2 * round64 (96/5))) 1
       \<noteq> round64 (7/2 * round64 (96/5))"
proof -
  have tb: "scroll_target (Some step_b) dims_200 = Fin 50"
    and ti: "scroll_target (Some step_inf) dims_200 = PosInf"
    by (simp_all add: scroll_target_def step_b_def step_inf_def dims_200_def)
  have e: "easeInOutQuad std_easing (Fin 1) = Fin 1"
    by (simp add: std_easing_def std_easeInOutQuad_def)
  have late: "Fin (9/10) > SCROLL"
    by (simp add: phase_defs)
  have v: "scrollToFocus std_easing (Some step_inf, Some step_b) (Some dims_200) (Fin (9/10))
      = Some NaN"
    by (simp add: scrollToFocus_enter_tween [OF late] ti tb tween_def e minus_number_def)
  have ne: "scrollToFocus std_easing (Some step_inf, Some step_b) (Some dims_200) (Fin (9/10))
      \<noteq> Some (scroll_target (Some step_b) dims_200)"
    by (simp add: v tb)
  have r: "tween64 (round64 (12 * round64 (96/5))) (round64 (7/2 * round64 (96/5))) 1
      \<noteq> round64 (7/2 * round64 (96/5))"
    by (subst tween64_targets, subst round64_target_7_2) simp
  show ?thesis
    by (intro conjI) (rule late e tb v ne round64_target_7_2 tween64_targets r)+
qed

subsection \<open>changeFocus\<close>










subsection \<open>exitLine and enterLine\<close>

lemmas line_defs =
  slideToLeft_def slideFromRight_def shrinkHeight_def growHeight_def distx_def outHeight_def

text \<open>
  C8: for curves with \<open>ease(0) = 0\<close> and \<open>ease(1) = 1\<close>, \<open>exitLine(0, 1, 100)\<close> has at
  \<open>t = 0\<close> the opacity \<open>0\<close> and the offset \<open>0\<close>, at \<open>t = 0.3\<close> the opacity \<open>1\<close> and the
  offset \<open>-250\<close>, at \<open>t = 0.7\<close> the height \<open>0\<close> and at \<open>t = 1\<close> still the height \<open>0\<close>;
  \<open>enterLine(0, 1, 100)\<close> has at \<open>t = 0\<close> the height \<open>0\<close>, the opacity \<open>0\<close> and the
  offset \<open>250\<close>, at \<open>t = 0.7\<close> the height \<open>100\<close>, and at \<open>t = 1\<close> the opacity \<open>1\<close> and
  the offset \<open>0\<close>.
\<close>

theorem exitLine_enterLine_values:
  assumes "ease_ends (linear E)" and "ease_ends (easeInOutQuad E)"
  shows
    "exitLine E (Fin 0) (Fin 1) (Fin 100) (Fin 0) ''opacity'' = Some (Num (Fin 0))
     \<and> exitLine E (Fin 0) (Fin 1) (Fin 100) (Fin 0) ''transform'' = Some (TranslateX (Fin 0))
     \<and> exitLine E (Fin 0) (Fin 1) (Fin 100) (Fin (3/10)) ''opacity'' = Some (Num (Fin 1))
     \<and> exitLine E (Fin 0) (Fin 1) (Fin 100) (Fin (3/10)) ''transform''
         = Some (TranslateX (Fin (- 250)))
     \<and> exitLine E (Fin 0) (Fin 1) (Fin 100) (Fin (7/10)) ''height'' = Some (Num (Fin 0))
     \<and> exitLine E (Fin 0) (Fin 1) (Fin 100) (Fin 1) ''height'' = Some (Num (Fin 0))
     \<and> enterLine E (Fin 0) (Fin 1) (Fin 100) (Fin 0) ''height'' = Some (Num (Fin 0))
     \<and> enterLine E (Fin 0) (Fin 1) (Fin 100) (Fin 0) ''opacity'' = Some (Num (Fin 0))
     \<and> enterLine E (Fin 0) (Fin 1) (Fin 100) (Fin 0) ''transform''
         = Some (TranslateX (Fin 250))
     \<and> enterLine E (Fin 0) (Fin 1) (Fin 100) (Fin (7/10)) ''height'' = Some (Num (Fin 100))
     \<and> enterLine E (Fin 0) (Fin 1) (Fin 100) (Fin 1) ''opacity'' = Some (Num (Fin 1))
     \<and> enterLine E (Fin 0) (Fin 1) (Fin 100) (Fin 1) ''transform'' = Some (TranslateX (Fin 0))"
proof -
  have exit: "exitLine E (Fin 0) (Fin 1) (Fin 100) (Fin 0) ''opacity'' = Some (Num (Fin 0))"
    "exitLine E (Fin 0) (Fin 1) (Fin 100) (Fin 0) ''transform'' = Some (TranslateX (Fin 0))"
    "exitLine E (Fin 0) (Fin 1) (Fin 100) (Fin (3/10)) ''opacity'' = Some (Num (Fin 1))"
    "exitLine E (Fin 0) (Fin 1) (Fin 100) (Fin (3/10)) ''transform'' = Some (TranslateX (Fin (- 250)))"
    "exitLine E (Fin 0) (Fin 1) (Fin 100) (Fin (7/10)) ''height'' = Some (Num (Fin 0))"
    "exitLine E (Fin 0) (Fin 1) (Fin 100) (Fin 1) ''height'' = Some (Num (Fin 0))"
    using assms
    by (simp_all add: exitLine_def chain_eval phase_defs line_defs tween_def ease_ends_def)
  have enter: "enterLine E (Fin 0) (Fin 1) (Fin 100) (Fin 0) ''height'' = Some (Num (Fin 0))"
    "enterLine E (Fin 0) (Fin 1) (Fin 100) (Fin 0) ''opacity'' = Some (Num (Fin 0))"
    "enterLine E (Fin 0) (Fin 1) (Fin 100) (Fin 0) ''transform'' = Some (TranslateX (Fin 250))"
    "enterLine E (Fin 0) (Fin 1) (Fin 100) (Fin (7/10)) ''height'' = Some (Num (Fin 100))"
    "enterLine E (Fin 0) (Fin 1) (Fin 100) (Fin 1) ''opacity'' = Some (Num (Fin 1))"
    "enterLine E (Fin 0) (Fin 1) (Fin 100) (Fin 1) ''transform'' = Some (TranslateX (Fin 0))"
    using assms
    by (simp_all add: enterLine_def chain_eval phase_defs line_defs tween_def ease_ends_def)
  show ?thesis
    using exit enter by simp
qed

theorem exitLine_enterLine_values_witness:
  "ease_ends (linear std_easing) \<and> ease_ends (easeInOutQuad std_easing)
   \<and> exitLine std_easing (Fin 0) (Fin 1) (Fin 100) (Fin (3/10)) ''transform''
       = Some (TranslateX (Fin (- 250)))
   \<and> exitLine std_easing (Fin 0) (Fin 1) (Fin 100) (Fin (7/10)) ''height'' = Some (Num (Fin 0))
   \<and> enterLine std_easing (Fin 0) (Fin 1) (Fin 100) (Fin (7/10)) ''height'' = Some (Num (Fin 100))
   \<and> enterLine std_easing (Fin 0) (Fin 1) (Fin 100) (Fin 1) ''transform'' = Some (TranslateX (Fin 0))"
  using exitLine_enterLine_values [OF std_easing_ends] std_easing_ends
  by simp

subsection \<open>scaleToFocus\<close>

text \<open>
  C6 at a pair whose previous side has the zoom \<open>0\<close>: \<open>step_b\<close> has a padding of half
  the container height, so its zoom is \<open>0\<close>; the zoom of \<open>step_a\<close> is \<open>1\<close>. Both sides
  are present, and the eased tween between the two zooms starts at \<open>0\<close>. The animation
  of \<open>scaleToFocus\<close> is \<open>1\<close> at \<open>t = 0\<close>: \<open>prevZoom || nextZoom\<close> falls back to the
  next zoom for the number \<open>0\<close> as it does for \<open>null\<close>.
\<close>

theorem scaleToFocus_zero_zoom:
  "getZoom (Some step_b) (Some dims_200) = Inr (Some (Fin 0))
   \<and> getZoom (Some step_a) (Some dims_200) = Inr (Some (Fin 1))
   \<and> tween (Fin 0) (Fin 1) (Fin 0) (easeInOutQuad std_easing) = Fin 0
   \<and> animate (scaleToFocus std_easing (Some step_b, Some step_a) (Some dims_200)) (Fin 0)
       = Inr (Fin 1)"
proof -
  have b: "getZoom (Some step_b) (Some dims_200) = Inr (Some (Fin 0))"
    by (simp add: getZoom_def step_b_def dims_200_def Math_max_def Math_min3_def Math_min_def)
  have a: "getZoom (Some step_a) (Some dims_200) = Inr (Some (Fin 1))"
    by (simp add: getZoom_def step_a_def dims_200_def Math_max_def Math_min3_def Math_min_def)
  have e: "easeInOutQuad std_easing (Fin 0) = Fin 0"
    by (simp add: std_easing_def std_easeInOutQuad_def)
  have "animate (scaleToFocus std_easing (Some step_b, Some step_a) (Some dims_200)) (Fin 0)
       = Inr (Fin 1)"
    by (simp add: animate_def scaleToFocus_def spread_def a b js_or_def truthy_def ToNumber_def
          tween_def e)
  then show ?thesis
    using a b e by (simp add: tween_def)
qed

subsection \<open>chain on the store\<close>

lemma chain_loop_store_eq:
  "style < length h \<Longrightarrow>
   chain_loop_store steps t i prevTop style h =
     h[style := chain_loop steps t i prevTop (h ! style)]"
proof (induction steps t i prevTop style h rule: chain_loop_store.induct)
  case (1 steps t i prevTop style h)
  show ?case
  proof (cases "i < length steps")
    case False
    then show ?thesis
      by (subst chain_loop_store.simps, subst chain_loop.simps) simp
  next
    case True
    obtain top' fn where tf: "steps ! i = (top', fn)"
      by (cases "steps ! i")
    define stept where "stept = (if t > top' then Fin 1 else (t - prevTop) / (top' - prevTop))"
    define h' where "h' = (case fn of Some f \<Rightarrow> Object_assign h style (f stept) | None \<Rightarrow> h)"
    define style' where
      "style' = (case fn of Some f \<Rightarrow> (h ! style) ++ f stept | None \<Rightarrow> h ! style)"
    have len: "style < length h'"
      using "1.prems" by (simp add: h'_def Object_assign_def split: option.splits)
    have h': "h' = h[style := style']"
      using "1.prems" by (simp add: h'_def style'_def Object_assign_def split: option.splits)
    show ?thesis
    proof (cases "t < top'")
      case lt: True
      have "chain_loop_store steps t i prevTop style h = h'"
        using True tf lt
        by (subst chain_loop_store.simps) (simp add: h'_def stept_def split: option.splits)
      moreover have "chain_loop steps t i prevTop (h ! style) = style'"
        using True tf lt
        by (subst chain_loop.simps) (simp add: style'_def stept_def split: option.splits)
      ultimately show ?thesis
        by (simp add: h')
    next
      case ge: False
      have a: "chain_loop_store steps t i prevTop style h =
          chain_loop_store steps t (i + 1) top' style h'"
        using True tf ge
        by (subst chain_loop_store.simps) (simp add: h'_def stept_def split: option.splits)
      have b: "chain_loop steps t i prevTop (h ! style) = chain_loop steps t (i + 1) top' style'"
        using True tf ge
        by (subst chain_loop.simps) (simp add: style'_def stept_def split: option.splits)
      have "chain_loop_store steps t (i + 1) top' style h' =
          h'[style := chain_loop steps t (i + 1) top' (h' ! style)]"
        using "1.IH" [OF True refl tf [symmetric] stept_def h'_def ge len] .
      then show ?thesis
        using "1.prems" by (simp add: a b h')
    qed
  qed
qed

lemma chain_store_eq:
  "start < length h \<Longrightarrow>
   chain_store steps start t h = (length h, h @ [chain steps (h ! start) t])"
  by (simp add: chain_store_def new_object_def Object_assign_def chain_loop_store_eq chain_def
        nth_append)

text \<open>
  C9: for every breakpoint list, every start template in the store and every progress
  \<open>t\<close>, a call of the animation returned by \<open>chain\<close> returns a reference that was not
  allocated before the call, so it is not the template; the style at that reference
  is the style \<open>chain\<close> computes from the content of the template; the template and
  every other object allocated before the call are unchanged after the call;
  writing to the returned style afterwards leaves the template unchanged; and a
  second call returns another reference.
\<close>

theorem chain_store_fresh:
  assumes "start < length h"
  shows "(case chain_store steps start t h of
            (style, h') \<Rightarrow>
              style = length h \<and> style \<noteq> start
              \<and> length h' = length h + 1
              \<and> h' ! style = chain steps (h ! start) t
              \<and> h' ! start = h ! start
              \<and> (\<forall>r < length h. h' ! r = h ! r)
              \<and> (\<forall>v. (h'[style := v]) ! start = h ! start)
              \<and> fst (chain_store steps start t' h') \<noteq> style)"
  using assms by (simp add: chain_store_eq nth_append)

theorem chain_store_fresh_witness:
  "(0 :: nat) < length [[''opacity'' \<mapsto> Num (Fin 0)]]
   \<and> fst (chain_store [(Fin (1/2), None), (Fin 1, Some (fadeIn std_easing (Fin 0)))] 0 (Fin 1)
          [[''opacity'' \<mapsto> Num (Fin 0)]]) = 1
   \<and> snd (chain_store [(Fin (1/2), None), (Fin 1, Some (fadeIn std_easing (Fin 0)))] 0 (Fin 1)
          [[''opacity'' \<mapsto> Num (Fin 0)]]) ! 1 = [''opacity'' \<mapsto> Num (Fin 1)]
   \<and> snd (chain_store [(Fin (1/2), None), (Fin 1, Some (fadeIn std_easing (Fin 0)))] 0 (Fin 1)
          [[''opacity'' \<mapsto> Num (Fin 0)]]) ! 0 = [''opacity'' \<mapsto> Num (Fin 0)]"
proof -
  have l: "(0 :: nat) < length [[''opacity'' \<mapsto> Num (Fin 0)]]"
    by simp
  have c: "chain [(Fin (1/2), None), (Fin 1, Some (fadeIn std_easing (Fin 0)))]
      [''opacity'' \<mapsto> Num (Fin 0)] (Fin 1) = [''opacity'' \<mapsto> Num (Fin 1)]"
    by (simp add: chain_eval fadeIn_def tween_def std_easing_def std_linear_def)
  show ?thesis
    using chain_store_fresh [OF l,
        of "[(Fin (1/2), None), (Fin 1, Some (fadeIn std_easing (Fin 0)))]" "Fin 1" "Fin 1"]
    by (auto simp add: case_prod_beta c)
qed

subsection \<open>focus and unfocus\<close>

text \<open>
  C10: \<open>unfocus\<close> and \<open>focus\<close> denote the same function: for all opacities and every
  progress \<open>t\<close>, \<open>unfocus(fromOpacity, toOpacity)(t)\<close> equals
  \<open>focus(fromOpacity, toOpacity)(t)\<close>, the opacity tween over the whole range.
\<close>

theorem unfocus_eq_focus:
  "unfocus E fromOpacity toOpacity t = focus E fromOpacity toOpacity t
   \<and> focus E fromOpacity toOpacity t ''opacity''
       = Some (Num (fromOpacity + (toOpacity - fromOpacity) * linear E t))"
  by (simp add: unfocus_def focus_def tween_def)

end
